theory Spec2Isabelle
  imports Main "HOL-Library.Word"
begin

unbundle bit_operations_syntax

section \<open>The HTTP note server: week_1/http/cmd/http_server/main.go\<close>

subsection \<open>Data\<close>

text \<open>
  Go's \<open>int64\<close> is a 64-bit word, read as a signed number by \<open>sint\<close>.
  A \<open>time.Time\<close> is a point on the process's clock; it is modelled by the number of
  nanoseconds it stands for, the order of two times being the order of these numbers.
\<close>

type_synonym int64 = "64 word"
type_synonym Time = int

record NoteInfo =
  Title :: string
  Context :: string
  Author :: string
  IsPublic :: bool

record Note =
  ID :: int64
  Info :: NoteInfo
  CreatedAt :: Time
  UpdatedAt :: Time

text \<open>
  \<open>SyncMap\<close> holds the map \<open>elems\<close> and the mutex \<open>m\<close>. A handler that runs alone
  takes the mutex and gives it back before it returns, so only \<open>elems\<close> is state here.
  The map's values are pointers to Notes that no handler writes through after the
  insertion; the model stores the Notes themselves.
\<close>

record SyncMap =
  elems :: "int64 \<rightharpoonup> Note"

definition notes_init :: SyncMap where
  "notes_init = \<lparr>elems = Map.empty\<rparr>"

subsection \<open>The response writer of net/http, as far as the handlers use it\<close>

text \<open>
  \<open>header\<close> is the header map the handler edits, \<open>status\<close> the status line once it
  is written (\<open>None\<close> before), \<open>sent_header\<close> the headers that went out with it, and
  \<open>body\<close> the bytes written so far. A second \<open>WriteHeader\<close> is ignored by net/http;
  a \<open>Write\<close> before any \<open>WriteHeader\<close> sends status 200 first.
\<close>

record ResponseWriter =
  header :: "string \<rightharpoonup> string"
  status :: "nat option"
  sent_header :: "string \<rightharpoonup> string"
  body :: string

definition new_response :: ResponseWriter where
  "new_response = \<lparr>header = Map.empty, status = None, sent_header = Map.empty, body = []\<rparr>"

abbreviation StatusOK :: nat where "StatusOK \<equiv> 200"
abbreviation StatusCreated :: nat where "StatusCreated \<equiv> 201"
abbreviation StatusBadRequest :: nat where "StatusBadRequest \<equiv> 400"
abbreviation StatusNotFound :: nat where "StatusNotFound \<equiv> 404"
abbreviation StatusInternalServerError :: nat where "StatusInternalServerError \<equiv> 500"

definition Header_Set :: "string \<Rightarrow> string \<Rightarrow> ResponseWriter \<Rightarrow> ResponseWriter" where
  "Header_Set k v w = w\<lparr>header := (header w)(k \<mapsto> v)\<rparr>"

definition Header_Del :: "string \<Rightarrow> ResponseWriter \<Rightarrow> ResponseWriter" where
  "Header_Del k w = w\<lparr>header := (header w)(k := None)\<rparr>"

definition WriteHeader :: "nat \<Rightarrow> ResponseWriter \<Rightarrow> ResponseWriter" where
  "WriteHeader c w =
     (case status w of
        None \<Rightarrow> w\<lparr>status := Some c, sent_header := header w\<rparr>
      | Some _ \<Rightarrow> w)"

definition Write :: "string \<Rightarrow> ResponseWriter \<Rightarrow> ResponseWriter" where
  "Write bs w =
     (let w' = (if status w = None then WriteHeader StatusOK w else w)
      in w'\<lparr>body := body w' @ bs\<rparr>)"

text \<open>
  \<open>http.Error(w, msg, code)\<close>: resets the content headers, writes the status and then
  the message followed by a newline.
\<close>

definition Error :: "ResponseWriter \<Rightarrow> string \<Rightarrow> nat \<Rightarrow> ResponseWriter" where
  "Error w msg c =
     Write (msg @ [CHR 0x0A])
       (WriteHeader c
         (Header_Set ''X-Content-Type-Options'' ''nosniff''
           (Header_Set ''Content-Type'' ''text/plain; charset=utf-8''
             (Header_Del ''Content-Length'' w))))"

subsection \<open>What one handler call takes from the libraries and the clock\<close>

text \<open>
  The handlers call into encoding/json, strconv, time and math/rand. One call of a handler
  sees one outcome of each of them, collected in \<open>Env\<close>:
  \<^item> \<open>Decode\<close>: \<open>json.NewDecoder(r.Body).Decode(info)\<close> on the request body, the error's
    text or the decoded NoteInfo;
  \<^item> \<open>Encode\<close>: \<open>json.NewEncoder(w).Encode(note)\<close>, the error's text or the bytes it
    writes to \<open>w\<close>; an \<open>Encode\<close> that fails is taken to have written nothing (it
    marshals the whole Note before its one \<open>Write\<close>);
  \<^item> \<open>ParseInt\<close>: \<open>strconv.ParseInt(idStr, 10, 64)\<close>, the error's text or the number;
  \<^item> \<open>Now\<close>: \<open>time.Now()\<close> of line 73;
  \<^item> \<open>Uint64\<close>: the 64 bits the generator of math/rand produces for \<open>rand.Int63()\<close>,
    after \<open>rand.Seed(time.Now().UnixNano())\<close> of line 72.
\<close>

record Env =
  Decode :: "string \<Rightarrow> string + NoteInfo"
  Encode :: "Note \<Rightarrow> string + string"
  ParseInt :: "string \<Rightarrow> string + int64"
  Now :: Time
  Uint64 :: "64 word"

text \<open>\<open>rand.Int63()\<close> clears the top bit of the generator's output.\<close>

definition Int63 :: "Env \<Rightarrow> int64" where
  "Int63 env = Uint64 env AND mask 63"

subsection \<open>The handlers\<close>

text \<open>
  \<open>createNoteHandler\<close> (lines 61 to 100). The Note built from the request is
  \<open>new_note\<close>; the handler returns the store and the response as it leaves them.
\<close>

definition new_note :: "Env \<Rightarrow> NoteInfo \<Rightarrow> Note" where
  "new_note env info =
     (let now = Now env
      in \<lparr>ID = Int63 env, Info = info, CreatedAt = now, UpdatedAt = now\<rparr>)"

definition createNoteHandler ::
  "Env \<Rightarrow> SyncMap \<Rightarrow> ResponseWriter \<Rightarrow> string \<Rightarrow> SyncMap \<times> ResponseWriter" where
  "createNoteHandler env notes w r_body =
     (case Decode env r_body of
        Inl err \<Rightarrow> (notes, Error w err StatusBadRequest)
      | Inr info \<Rightarrow>
          let note = new_note env info;
              w1 = Header_Set ''Content-Type'' ''application/json'' w;
              w2 = WriteHeader StatusCreated w1
          in (case Encode env note of
                Inl err \<Rightarrow> (notes, Error w2 err StatusInternalServerError)
              | Inr js \<Rightarrow>
                  (notes\<lparr>elems := (elems notes)(ID note \<mapsto> note)\<rparr>, Write js w2)))"

text \<open>\<open>parseNoteID\<close> (lines 139 to 149): the error of \<open>strconv.ParseInt\<close>, or the id.\<close>

definition parseNoteID :: "Env \<Rightarrow> string \<Rightarrow> string + int64" where
  "parseNoteID env idStr =
     (case ParseInt env idStr of
        Inl err \<Rightarrow> Inl err
      | Inr i \<Rightarrow> Inr i)"

text \<open>
  \<open>getNoteHandler\<close> (lines 104 to 135). \<open>noteID\<close> is \<open>chi.URLParam(r, "id")\<close>, the
  text the router has bound to the parameter \<open>id\<close> of the request.
\<close>

definition getNoteHandler ::
  "Env \<Rightarrow> SyncMap \<Rightarrow> ResponseWriter \<Rightarrow> string \<Rightarrow> SyncMap \<times> ResponseWriter" where
  "getNoteHandler env notes w noteID =
     (case parseNoteID env noteID of
        Inl err \<Rightarrow> (notes, Error w ''Invalid note ID'' StatusBadRequest)
      | Inr i \<Rightarrow>
          (case elems notes i of
             None \<Rightarrow> (notes, Error w ''Note not found'' StatusNotFound)
           | Some note \<Rightarrow>
               let w1 = Header_Set ''Content-Type'' ''application/json'' w
               in (case Encode env note of
                     Inl err \<Rightarrow>
                       (notes, Error w1 ''Failed to encode note data'' StatusInternalServerError)
                   | Inr js \<Rightarrow> (notes, Write js w1))))"

text \<open>
  \<open>main\<close> (lines 152 to 168) routes each request to one of the two handlers, with a
  response writer of its own. A run of the server is the list of the requests it has
  served, one after the other; \<open>serve\<close> gives the store after the run, from the empty
  map of line 55.
\<close>

datatype Request = POST_notes Env string | GET_note Env string

fun step :: "SyncMap \<Rightarrow> Request \<Rightarrow> SyncMap" where
  "step notes (POST_notes env r_body) = fst (createNoteHandler env notes new_response r_body)"
| "step notes (GET_note env noteID) = fst (getNoteHandler env notes new_response noteID)"

definition serve :: "Request list \<Rightarrow> SyncMap" where
  "serve reqs = foldl step notes_init reqs"

section \<open>The Note Store operations that the sources declare and do not implement\<close>

text \<open>
  note.proto declares the service NoteV1 with the calls Create, Get, List, Update and
  Delete, and the message UpdateNoteInfo whose four fields are nullable wrappers. The
  sources hold no implementation of List, Update and Delete, and none of a store that keeps
  an order. The definitions of this section follow the specification of the Note Store.
\<close>

text \<open>Modelled from the spec: the error kinds of the Note Store (section 7).\<close>

datatype error = NotFound | InvalidArgument | IdentifierExhausted

text \<open>
  Modelled from the spec: one entry of a Patch, \<open>absent\<close> or \<open>present(value)\<close>
  (section 3). The wrappers of UpdateNoteInfo carry it on the wire: a null wrapper is
  \<open>absent\<close>.
\<close>

datatype 'a entry = absent | present 'a

text \<open>Modelled from the spec: the Patch, one entry for each field of NoteInfo.\<close>

record Patch =
  patch_title :: "string entry"
  patch_context :: "string entry"
  patch_author :: "string entry"
  patch_isPublic :: "bool entry"

text \<open>
  Modelled from the spec: the collection of Notes that the Store owns. \<open>stored\<close> is the
  sequence of the stored Notes in insertion order (the order List documents); \<open>retired\<close>
  holds the ids of the Notes that were deleted, which no later Note may take (sections 3
  and 4.2: an identifier is never reused after Delete).
\<close>

record Store =
  stored :: "Note list"
  retired :: "int64 list"

text \<open>Modelled from the spec: the Store that holds no Note and has deleted none.\<close>

definition empty_Store :: Store where
  "empty_Store = \<lparr>stored = [], retired = []\<rparr>"

text \<open>Modelled from the spec: the Note with a given id in a sequence of Notes, if any.\<close>

definition lookup :: "int64 \<Rightarrow> Note list \<Rightarrow> Note option" where
  "lookup i ns = find (\<lambda>n. ID n = i) ns"

text \<open>
  The handlers of the HTTP server read a \<open>SyncMap\<close>. For a Store it is the map that
  takes an id to the Note the Store holds under it.
\<close>

definition as_SyncMap :: "Store \<Rightarrow> SyncMap" where
  "as_SyncMap st = \<lparr>elems = (\<lambda>i. lookup i (stored st))\<rparr>"

text \<open>
  Modelled from the spec: \<open>Create(info)\<close>. \<open>draws\<close> are the outputs of the random
  generator for the attempts the Store makes, each cut to 63 bits; the first that no stored
  Note holds and no deleted Note held becomes the id, and \<open>IdentifierExhausted\<close> is the
  answer when there is none. The new Note has both times equal to \<open>now\<close> and goes to the
  end of the sequence.
\<close>

definition Create ::
  "NoteInfo \<Rightarrow> Time \<Rightarrow> 64 word list \<Rightarrow> Store \<Rightarrow> error + Note \<times> Store" where
  "Create info now draws st =
     (case find (\<lambda>i. lookup i (stored st) = None \<and> i \<notin> set (retired st))
             (map (\<lambda>u. u AND mask 63) draws) of
        None \<Rightarrow> Inl IdentifierExhausted
      | Some i \<Rightarrow>
          let n = \<lparr>ID = i, Info = info, CreatedAt = now, UpdatedAt = now\<rparr>
          in Inr (n, st\<lparr>stored := stored st @ [n]\<rparr>))"

text \<open>Modelled from the spec: \<open>Get(id)\<close>, the stored Note or \<open>NotFound\<close>.\<close>

definition Get :: "int64 \<Rightarrow> Store \<Rightarrow> error + Note" where
  "Get i st = (case lookup i (stored st) of None \<Rightarrow> Inl NotFound | Some n \<Rightarrow> Inr n)"

text \<open>
  Modelled from the spec: \<open>List(limit, offset)\<close>. It skips \<open>offset\<close> Notes from the start
  of the sequence and returns at most \<open>limit\<close> of the rest; a \<open>limit\<close> of zero or less
  returns nothing. The spec says nothing of a negative \<open>offset\<close>; here it skips nothing.
\<close>

definition List :: "int64 \<Rightarrow> int64 \<Rightarrow> Store \<Rightarrow> Note list" where
  "List limit offset st = take (nat (sint limit)) (drop (nat (sint offset)) (stored st))"

text \<open>
  Modelled from the spec: the effect of one entry of a Patch on the field it names. A
  present entry overwrites the field, an absent one leaves it.
\<close>

definition patch_field :: "'a entry \<Rightarrow> 'a \<Rightarrow> 'a" where
  "patch_field e old = (case e of absent \<Rightarrow> old | present v \<Rightarrow> v)"

text \<open>Modelled from the spec: a Patch applied to a NoteInfo, field by field.\<close>

definition apply_Patch :: "Patch \<Rightarrow> NoteInfo \<Rightarrow> NoteInfo" where
  "apply_Patch p info =
     \<lparr>Title = patch_field (patch_title p) (Title info),
      Context = patch_field (patch_context p) (Context info),
      Author = patch_field (patch_author p) (Author info),
      IsPublic = patch_field (patch_isPublic p) (IsPublic info)\<rparr>"

text \<open>
  Modelled from the spec: \<open>Update(id, patch)\<close>. \<open>NotFound\<close> when no Note has the id;
  else the Note is patched, its \<open>updatedAt\<close> becomes \<open>now\<close>, and the Note as it is after
  the change is returned with the Store.
\<close>

definition Update :: "int64 \<Rightarrow> Patch \<Rightarrow> Time \<Rightarrow> Store \<Rightarrow> error + Note \<times> Store" where
  "Update i p now st =
     (let upd = (\<lambda>n. n\<lparr>Info := apply_Patch p (Info n), UpdatedAt := now\<rparr>)
      in case lookup i (stored st) of
           None \<Rightarrow> Inl NotFound
         | Some n \<Rightarrow>
             Inr (upd n, st\<lparr>stored := map (\<lambda>m. if ID m = i then upd m else m) (stored st)\<rparr>))"

text \<open>
  Modelled from the spec: \<open>Delete(id)\<close>. \<open>NotFound\<close> when no Note has the id; else the
  Note leaves the Store for good and its id is retired.
\<close>

definition Delete :: "int64 \<Rightarrow> Store \<Rightarrow> error + Store" where
  "Delete i st =
     (case lookup i (stored st) of
        None \<Rightarrow> Inl NotFound
      | Some n \<Rightarrow>
          Inr (st\<lparr>stored := filter (\<lambda>m. ID m \<noteq> i) (stored st), retired := i # retired st\<rparr>))"

subsection \<open>Stand-ins for the libraries, to run the handlers on concrete requests\<close>

text \<open>
  \<open>env_ok t u\<close> is a handler call at time \<open>t\<close> whose generator gives \<open>u\<close>. Its decoder
  takes an empty body for an error and any other body for the title of the Note, its
  encoder writes the title, and its \<open>ParseInt\<close> knows the numerals \<open>7\<close>, \<open>8\<close>
  and \<open>9\<close>.
  \<open>env_enc_fails\<close> is the same call with an encoder that fails.
\<close>

definition env_ok :: "Time \<Rightarrow> 64 word \<Rightarrow> Env" where
  "env_ok t u =
     \<lparr>Decode = (\<lambda>b. if b = [] then Inl ''EOF''
                     else Inr \<lparr>Title = b, Context = [], Author = [], IsPublic = False\<rparr>),
      Encode = (\<lambda>n. Inr (Title (Info n))),
      ParseInt = (\<lambda>s. if s = ''7'' then Inr 7 else if s = ''8'' then Inr 8
                       else if s = ''9'' then Inr 9 else Inl ''invalid syntax''),
      Now = t, Uint64 = u\<rparr>"

definition env_enc_fails :: "Time \<Rightarrow> 64 word \<Rightarrow> Env" where
  "env_enc_fails t u = (env_ok t u)\<lparr>Encode := (\<lambda>n. Inl ''write: broken pipe'')\<rparr>"

text \<open>
  Values for the examples: a NoteInfo and a Note with a given title, the Note of the
  example of the spec's section 8, the Store that holds given Notes and has deleted none,
  and the Patch that names no field.
\<close>

definition titled :: "string \<Rightarrow> NoteInfo" where
  "titled t = \<lparr>Title = t, Context = [], Author = [], IsPublic = False\<rparr>"

definition note_of :: "int64 \<Rightarrow> string \<Rightarrow> Time \<Rightarrow> Note" where
  "note_of i t now = \<lparr>ID = i, Info = titled t, CreatedAt = now, UpdatedAt = now\<rparr>"

definition note_A :: Note where
  "note_A = \<lparr>ID = 7, Info = \<lparr>Title = ''A'', Context = ''B'', Author = ''C'', IsPublic = True\<rparr>,
             CreatedAt = 1000, UpdatedAt = 1000\<rparr>"

definition store_of :: "Note list \<Rightarrow> Store" where
  "store_of ns = \<lparr>stored = ns, retired = []\<rparr>"

definition no_patch :: Patch where
  "no_patch = \<lparr>patch_title = absent, patch_context = absent, patch_author = absent,
               patch_isPublic = absent\<rparr>"

section \<open>Properties of the HTTP note server\<close>

subsection \<open>The response writer\<close>

lemma status_Write:
  "status (Write bs w) = (case status w of None \<Rightarrow> Some StatusOK | Some c \<Rightarrow> Some c)"
  by (simp add: Write_def WriteHeader_def split: option.splits)

lemma status_WriteHeader:
  "status (WriteHeader c w) = (case status w of None \<Rightarrow> Some c | Some c' \<Rightarrow> Some c')"
  by (simp add: WriteHeader_def split: option.splits)

lemma status_Header_Set: "status (Header_Set k v w) = status w"
  by (simp add: Header_Set_def)

lemma status_Header_Del: "status (Header_Del k w) = status w"
  by (simp add: Header_Del_def)

lemma status_Error:
  "status (Error w msg c) = (case status w of None \<Rightarrow> Some c | Some c' \<Rightarrow> Some c')"
  by (simp add: Error_def status_Write status_WriteHeader status_Header_Set status_Header_Del
      split: option.splits)

lemma body_WriteHeader: "body (WriteHeader c w) = body w"
  by (simp add: WriteHeader_def split: option.splits)

lemma body_Write: "body (Write bs w) = body w @ bs"
  by (simp add: Write_def body_WriteHeader)

lemma body_Header_Set: "body (Header_Set k v w) = body w"
  by (simp add: Header_Set_def)

lemma body_Header_Del: "body (Header_Del k w) = body w"
  by (simp add: Header_Del_def)

lemma body_Error: "body (Error w msg c) = body w @ msg @ [CHR 0x0A]"
  by (simp add: Error_def body_Write body_WriteHeader body_Header_Set body_Header_Del)

lemmas response_simps =
  status_Write status_WriteHeader status_Header_Set status_Header_Del status_Error
  body_WriteHeader body_Write body_Header_Set body_Header_Del body_Error

lemma new_response_simps: "status new_response = None" "body new_response = []"
  by (simp_all add: new_response_def)

subsection \<open>The identifier\<close>

lemma Int63_nonneg: "0 \<le> sint (Int63 env)"
proof -
  have "\<not> bit (Uint64 env AND mask 63) (63::nat)"
    by (simp add: bit_and_iff bit_mask_iff)
  then have "\<not> sint (Uint64 env AND mask 63) < 0"
    using bit_last_iff [of "Uint64 env AND mask 63"] by simp
  then show ?thesis
    by (simp add: Int63_def)
qed

lemma Int63_small: "uint (Uint64 env) < 2 ^ 63 \<Longrightarrow> Int63 env = Uint64 env"
  by (simp add: Int63_def mask_eq_iff)

lemma Int63_env_ok_7: "Int63 (env_ok t 7) = 7" "Int63 (env_enc_fails t 7) = 7"
  by (simp_all add: Int63_def env_ok_def env_enc_fails_def mask_eq_iff)

lemma ID_new_note: "ID (new_note env info) = Int63 env"
  by (simp add: new_note_def Let_def)

subsection \<open>What the handlers do to the store\<close>

lemma fst_getNoteHandler: "fst (getNoteHandler env notes w noteID) = notes"
  by (simp add: getNoteHandler_def Let_def split: sum.splits option.splits)

lemma fst_createNoteHandler:
  "fst (createNoteHandler env notes w r_body) =
     (case Decode env r_body of
        Inl err \<Rightarrow> notes
      | Inr info \<Rightarrow>
          (case Encode env (new_note env info) of
             Inl err \<Rightarrow> notes
           | Inr js \<Rightarrow> notes\<lparr>elems := (elems notes)(Int63 env \<mapsto> new_note env info)\<rparr>))"
  by (simp add: createNoteHandler_def Let_def ID_new_note split: sum.splits)

lemma createNoteHandler_encode_error:
  "Decode env r_body = Inr info \<Longrightarrow> Encode env (new_note env info) = Inl err \<Longrightarrow>
     createNoteHandler env notes w r_body =
       (notes, Error (WriteHeader StatusCreated
                        (Header_Set ''Content-Type'' ''application/json'' w))
                 err StatusInternalServerError)"
  by (simp add: createNoteHandler_def Let_def)

lemma createNoteHandler_stored:
  "Decode env r_body = Inr info \<Longrightarrow> Encode env (new_note env info) = Inr js \<Longrightarrow>
     createNoteHandler env notes w r_body =
       (notes\<lparr>elems := (elems notes)(Int63 env \<mapsto> new_note env info)\<rparr>,
        Write js (WriteHeader StatusCreated
                   (Header_Set ''Content-Type'' ''application/json'' w)))"
  by (simp add: createNoteHandler_def Let_def ID_new_note)

text \<open>
  \<open>parseNoteID\<close> hands on what \<open>strconv.ParseInt\<close> answers for the text it is given.
\<close>

lemma parseNoteID_ParseInt: "parseNoteID env idStr = ParseInt env idStr"
  by (simp add: parseNoteID_def split: sum.splits)

text \<open>
  \<open>main\<close> registers \<open>getNoteHandler\<close> under \<open>getPostfix\<close>, the text \<open>/notes/%d\<close>, a
  pattern that names no parameter, so the router binds no \<open>id\<close> and
  \<open>chi.URLParam(r, "id")\<close> is the empty text. When \<open>strconv.ParseInt\<close> refuses the text
  it is given, the handler answers 400 and does not read the map.
\<close>

lemma getNoteHandler_unparsed:
  "ParseInt env noteID = Inl e \<Longrightarrow>
     getNoteHandler env notes w noteID = (notes, Error w ''Invalid note ID'' StatusBadRequest)"
  by (simp add: getNoteHandler_def parseNoteID_ParseInt)

lemma getNoteHandler_found:
  "ParseInt env noteID = Inr i \<Longrightarrow> elems notes i = Some n \<Longrightarrow>
     snd (getNoteHandler env notes w noteID) =
       (case Encode env n of
          Inl err \<Rightarrow> Error (Header_Set ''Content-Type'' ''application/json'' w)
                       ''Failed to encode note data'' StatusInternalServerError
        | Inr js \<Rightarrow> Write js (Header_Set ''Content-Type'' ''application/json'' w))"
  by (simp add: getNoteHandler_def parseNoteID_ParseInt Let_def split: sum.splits)

lemma getNoteHandler_absent:
  "ParseInt env noteID = Inr i \<Longrightarrow> elems notes i = None \<Longrightarrow>
     snd (getNoteHandler env notes w noteID) = Error w ''Note not found'' StatusNotFound"
  by (simp add: getNoteHandler_def parseNoteID_ParseInt)

lemma status_getNoteHandler_found:
  assumes "ParseInt env noteID = Inr i" and "elems notes i = Some n"
  shows "status (snd (getNoteHandler env notes new_response noteID)) =
           (case Encode env n of Inl err \<Rightarrow> Some StatusInternalServerError
                               | Inr js \<Rightarrow> Some StatusOK)"
  by (simp add: getNoteHandler_found [OF assms] response_simps new_response_simps
      split: sum.splits)

lemma status_getNoteHandler_unparsed:
  assumes "ParseInt env noteID = Inl e"
  shows "status (snd (getNoteHandler env notes new_response noteID)) = Some StatusBadRequest"
  by (simp add: getNoteHandler_unparsed [OF assms] response_simps new_response_simps)

lemma status_getNoteHandler_absent:
  assumes "ParseInt env noteID = Inr i" and "elems notes i = None"
  shows "status (snd (getNoteHandler env notes new_response noteID)) = Some StatusNotFound"
  by (simp add: getNoteHandler_absent [OF assms] response_simps new_response_simps)

subsection \<open>Runs of the server\<close>

lemma times_ordered_step:
  assumes "\<forall>k n. elems s k = Some n \<longrightarrow> CreatedAt n \<le> UpdatedAt n"
  shows "\<forall>k n. elems (step s req) k = Some n \<longrightarrow> CreatedAt n \<le> UpdatedAt n"
proof (cases req)
  case (POST_notes env r_body)
  from assms show ?thesis
    unfolding POST_notes
    by (auto simp: fst_createNoteHandler new_note_def Let_def split: sum.splits if_splits)
next
  case (GET_note env noteID)
  from assms show ?thesis
    by (simp add: GET_note fst_getNoteHandler)
qed

lemma times_ordered_foldl:
  "\<forall>k n. elems s k = Some n \<longrightarrow> CreatedAt n \<le> UpdatedAt n \<Longrightarrow>
   \<forall>k n. elems (foldl step s reqs) k = Some n \<longrightarrow> CreatedAt n \<le> UpdatedAt n"
proof (induction reqs arbitrary: s)
  case Nil
  then show ?case by simp
next
  case (Cons req reqs)
  from Cons.IH [OF times_ordered_step [OF Cons.prems, of req]]
  show ?case by simp
qed

lemma times_ordered_serve:
  "\<forall>k n. elems (serve reqs) k = Some n \<longrightarrow> CreatedAt n \<le> UpdatedAt n"
  unfolding serve_def
  by (rule times_ordered_foldl) (simp add: notes_init_def)

lemma serve_two_creates:
  "serve [POST_notes (env_ok 1000 7) ''A'', GET_note (env_ok 1001 0) ''7'',
          POST_notes (env_ok 1002 9) ''B'']
   = \<lparr>elems = [7 \<mapsto> note_of 7 ''A'' 1000, 9 \<mapsto> note_of 9 ''B'' 1002]\<rparr>"
  by (simp add: serve_def fst_createNoteHandler fst_getNoteHandler env_ok_def new_note_def
      Int63_small notes_init_def titled_def note_of_def)

subsection \<open>The claims about the handlers\<close>

text \<open>
  C1. The id of a new Note is the generator's output cut to 63 bits, whatever the store
  holds. Two creates whose generator gives the same bits return the same id, and the
  second replaces the Note of the first: after the run the store holds one Note, the
  second. The handler draws once and does not look the id up before it writes the map.
\<close>

theorem create_collision_overwrites:
  "ID (new_note (env_ok 1000 7) (titled ''A'')) = 7
   \<and> serve [POST_notes (env_ok 1000 7) ''A'']
       = \<lparr>elems = [7 \<mapsto> note_of 7 ''A'' 1000]\<rparr>
   \<and> ID (new_note (env_ok 1002 7) (titled ''B'')) = 7
   \<and> serve [POST_notes (env_ok 1000 7) ''A'', POST_notes (env_ok 1002 7) ''B'']
       = \<lparr>elems = [7 \<mapsto> note_of 7 ''B'' 1002]\<rparr>"
  by (simp add: serve_def fst_createNoteHandler env_ok_def new_note_def Int63_small
      notes_init_def titled_def note_of_def)

text \<open>
  C3. A create whose body decodes to \<open>info\<close> and whose answer is encoded answers 201 with
  the encoded Note, and the map then holds under the id of that Note a Note whose \<open>Info\<close>
  is \<open>info\<close>, field for field. Every get that follows it and whose text
  \<open>strconv.ParseInt\<close> reads as that id finds this Note: it answers neither 404 nor 400,
  it answers 200 with the encoding of the Note when its own encoding succeeds, and 500
  when it fails.
\<close>

theorem get_after_create_roundtrip:
  assumes "Decode env r_body = Inr info"
      and "Encode env (new_note env info) = Inr js"
      and "createNoteHandler env notes new_response r_body = (notes', w')"
  shows "status w' = Some StatusCreated \<and> body w' = js
       \<and> (\<exists>n. elems notes' (ID (new_note env info)) = Some n
            \<and> Info n = info
            \<and> Title (Info n) = Title info \<and> Context (Info n) = Context info
            \<and> Author (Info n) = Author info \<and> IsPublic (Info n) = IsPublic info
            \<and> (\<forall>env' noteID. ParseInt env' noteID = Inr (ID (new_note env info)) \<longrightarrow>
                  status (snd (getNoteHandler env' notes' new_response noteID))
                    \<noteq> Some StatusNotFound
                \<and> status (snd (getNoteHandler env' notes' new_response noteID))
                    \<noteq> Some StatusBadRequest
                \<and> (\<forall>js'. Encode env' n = Inr js' \<longrightarrow>
                      status (snd (getNoteHandler env' notes' new_response noteID))
                        = Some StatusOK
                    \<and> body (snd (getNoteHandler env' notes' new_response noteID)) = js')
                \<and> (\<forall>e. Encode env' n = Inl e \<longrightarrow>
                      status (snd (getNoteHandler env' notes' new_response noteID))
                        = Some StatusInternalServerError)))"
proof -
  let ?n = "new_note env info"
  from createNoteHandler_stored [OF assms(1,2), of "notes" new_response] assms(3)
  have st: "notes' = notes\<lparr>elems := (elems notes)(Int63 env \<mapsto> ?n)\<rparr>"
    and w': "w' = Write js (WriteHeader StatusCreated
                   (Header_Set ''Content-Type'' ''application/json'' new_response))"
    by simp_all
  have found: "elems notes' (ID ?n) = Some ?n"
    by (simp add: st ID_new_note)
  have r: "status w' = Some StatusCreated \<and> body w' = js"
    by (simp add: w' response_simps new_response_simps)
  have i: "Info ?n = info"
    by (simp add: new_note_def Let_def)
  have g: "status (snd (getNoteHandler env' notes' new_response noteID)) \<noteq> Some StatusNotFound
      \<and> status (snd (getNoteHandler env' notes' new_response noteID)) \<noteq> Some StatusBadRequest
      \<and> (\<forall>js'. Encode env' ?n = Inr js' \<longrightarrow>
            status (snd (getNoteHandler env' notes' new_response noteID)) = Some StatusOK
          \<and> body (snd (getNoteHandler env' notes' new_response noteID)) = js')
      \<and> (\<forall>e. Encode env' ?n = Inl e \<longrightarrow>
            status (snd (getNoteHandler env' notes' new_response noteID))
              = Some StatusInternalServerError)"
    if p: "ParseInt env' noteID = Inr (ID ?n)" for env' noteID
    by (simp add: getNoteHandler_found [OF p found] response_simps new_response_simps
        split: sum.splits)
  from r found i g show ?thesis by auto
qed

theorem get_after_create_roundtrip_witness:
  "Decode (env_ok 1000 7) ''A'' = Inr (titled ''A'')
   \<and> Encode (env_ok 1000 7) (new_note (env_ok 1000 7) (titled ''A'')) = Inr ''A''
   \<and> ParseInt (env_ok 1001 0) ''7'' = Inr (ID (new_note (env_ok 1000 7) (titled ''A'')))
   \<and> status (snd (createNoteHandler (env_ok 1000 7) notes_init new_response ''A''))
        = Some StatusCreated
   \<and> (\<exists>n. elems (fst (createNoteHandler (env_ok 1000 7) notes_init new_response ''A'')) 7
              = Some n
          \<and> Info n = titled ''A''
          \<and> status (snd (getNoteHandler (env_ok 1001 0)
                (fst (createNoteHandler (env_ok 1000 7) notes_init new_response ''A''))
                new_response ''7'')) = Some StatusOK
          \<and> body (snd (getNoteHandler (env_ok 1001 0)
                (fst (createNoteHandler (env_ok 1000 7) notes_init new_response ''A''))
                new_response ''7'')) = ''A''
          \<and> status (snd (getNoteHandler (env_enc_fails 1001 0)
                (fst (createNoteHandler (env_ok 1000 7) notes_init new_response ''A''))
                new_response ''7'')) = Some StatusInternalServerError)"
proof -
  let ?c = "createNoteHandler (env_ok 1000 7) notes_init new_response ''A''"
  let ?g = "getNoteHandler (env_ok 1001 0) (fst ?c) new_response ''7''"
  let ?g' = "getNoteHandler (env_enc_fails 1001 0) (fst ?c) new_response ''7''"
  have d: "Decode (env_ok 1000 7) ''A'' = Inr (titled ''A'')"
    by (simp add: env_ok_def titled_def)
  have e: "Encode (env_ok 1000 7) (new_note (env_ok 1000 7) (titled ''A'')) = Inr ''A''"
    by (simp add: env_ok_def titled_def new_note_def Let_def)
  have p: "ParseInt (env_ok 1001 0) ''7'' = Inr (ID (new_note (env_ok 1000 7) (titled ''A'')))"
    by (simp add: ID_new_note Int63_env_ok_7) (simp add: env_ok_def)
  have p': "ParseInt (env_enc_fails 1001 0) ''7''
              = Inr (ID (new_note (env_ok 1000 7) (titled ''A'')))"
    by (simp add: ID_new_note Int63_env_ok_7) (simp add: env_enc_fails_def env_ok_def)
  have c: "?c = (fst ?c, snd ?c)"
    by simp
  have enc: "\<And>n. Info n = titled ''A'' \<Longrightarrow> Encode (env_ok 1001 0) n = Inr ''A''"
    by (simp add: env_ok_def titled_def)
  have enc': "\<And>n. Encode (env_enc_fails 1001 0) n = Inl ''write: broken pipe''"
    by (simp add: env_enc_fails_def env_ok_def)
  from get_after_create_roundtrip [OF d e c]
  obtain n where n: "elems (fst ?c) (ID (new_note (env_ok 1000 7) (titled ''A''))) = Some n"
    and i: "Info n = titled ''A''"
    and s: "status (snd ?c) = Some StatusCreated"
    and ok: "\<forall>js'. Encode (env_ok 1001 0) n = Inr js' \<longrightarrow>
               status (snd ?g) = Some StatusOK \<and> body (snd ?g) = js'"
    and ko: "\<forall>e. Encode (env_enc_fails 1001 0) n = Inl e \<longrightarrow>
               status (snd ?g') = Some StatusInternalServerError"
    using p p' by blast
  from n have n7: "elems (fst ?c) 7 = Some n"
    by (simp add: ID_new_note Int63_env_ok_7)
  from ok enc [OF i] have "status (snd ?g) = Some StatusOK" and "body (snd ?g) = ''A''"
    by simp_all
  moreover from ko enc' have "status (snd ?g') = Some StatusInternalServerError"
    by blast
  ultimately show ?thesis
    using d e p s n7 i by blast
qed

text \<open>
  C4. After any run of the server, every stored Note has \<open>CreatedAt \<le> UpdatedAt\<close>; and a
  create that stores a Note stores it with both times equal to the one \<open>time.Now()\<close> of
  the call. The two handlers are the operations of the server; neither writes a stored Note.
\<close>

theorem updatedAt_ge_createdAt:
  "(\<forall>k n. elems (serve reqs) k = Some n \<longrightarrow> CreatedAt n \<le> UpdatedAt n)
   \<and> (\<forall>info js. Decode env r_body = Inr info \<and> Encode env (new_note env info) = Inr js \<longrightarrow>
        (\<exists>n. elems (fst (createNoteHandler env notes w r_body)) (Int63 env) = Some n
           \<and> CreatedAt n = Now env \<and> UpdatedAt n = Now env))"
proof (intro conjI)
  show "\<forall>k n. elems (serve reqs) k = Some n \<longrightarrow> CreatedAt n \<le> UpdatedAt n"
    by (rule times_ordered_serve)
next
  show "\<forall>info js. Decode env r_body = Inr info \<and> Encode env (new_note env info) = Inr js \<longrightarrow>
        (\<exists>n. elems (fst (createNoteHandler env notes w r_body)) (Int63 env) = Some n
           \<and> CreatedAt n = Now env \<and> UpdatedAt n = Now env)"
    by (simp add: fst_createNoteHandler new_note_def Let_def)
qed

theorem updatedAt_ge_createdAt_witness:
  "elems (serve [POST_notes (env_ok 1000 7) ''A'', GET_note (env_ok 1001 0) ''7'',
                 POST_notes (env_ok 1002 9) ''B'']) 9 = Some (note_of 9 ''B'' 1002)
   \<and> CreatedAt (note_of 9 ''B'' 1002) \<le> UpdatedAt (note_of 9 ''B'' 1002)
   \<and> Decode (env_ok 1000 7) ''A'' = Inr (titled ''A'')
   \<and> Encode (env_ok 1000 7) (new_note (env_ok 1000 7) (titled ''A'')) = Inr ''A''
   \<and> (\<exists>n. elems (fst (createNoteHandler (env_ok 1000 7) notes_init new_response ''A'')) 7
              = Some n
         \<and> CreatedAt n = 1000 \<and> UpdatedAt n = 1000)"
proof -
  let ?reqs = "[POST_notes (env_ok 1000 7) ''A'', GET_note (env_ok 1001 0) ''7'',
                POST_notes (env_ok 1002 9) ''B'']"
  have stored: "elems (serve ?reqs) 9 = Some (note_of 9 ''B'' 1002)"
    by (simp add: serve_two_creates)
  have d: "Decode (env_ok 1000 7) ''A'' = Inr (titled ''A'')"
    by (simp add: env_ok_def titled_def)
  have e: "Encode (env_ok 1000 7) (new_note (env_ok 1000 7) (titled ''A'')) = Inr ''A''"
    by (simp add: env_ok_def titled_def new_note_def Let_def)
  note inst = updatedAt_ge_createdAt [of ?reqs "env_ok 1000 7" "''A''" notes_init new_response]
  from inst stored have "CreatedAt (note_of 9 ''B'' 1002) \<le> UpdatedAt (note_of 9 ''B'' 1002)"
    by blast
  moreover from inst d e
  have "\<exists>n. elems (fst (createNoteHandler (env_ok 1000 7) notes_init new_response ''A''))
             (Int63 (env_ok 1000 7)) = Some n
         \<and> CreatedAt n = Now (env_ok 1000 7) \<and> UpdatedAt n = Now (env_ok 1000 7)"
    by blast
  then have "\<exists>n. elems (fst (createNoteHandler (env_ok 1000 7) notes_init new_response ''A'')) 7
               = Some n
         \<and> CreatedAt n = 1000 \<and> UpdatedAt n = 1000"
    by (simp add: Int63_env_ok_7) (simp add: env_ok_def)
  ultimately show ?thesis using stored d e by simp
qed

text \<open>
  C8. Each handler leaves the store whole. A create whose body does not decode, or whose
  answer does not encode, returns with the store it found; a create that succeeds binds
  the one key of the new Note to the complete Note and changes no other key; a get
  returns with the store it found, whatever it answers.
\<close>

theorem handlers_all_or_nothing:
  "(\<forall>err. Decode env r_body = Inl err \<longrightarrow>
        fst (createNoteHandler env notes w r_body) = notes)
   \<and> (\<forall>info err. Decode env r_body = Inr info \<and> Encode env (new_note env info) = Inl err \<longrightarrow>
        fst (createNoteHandler env notes w r_body) = notes)
   \<and> (\<forall>info js. Decode env r_body = Inr info \<and> Encode env (new_note env info) = Inr js \<longrightarrow>
        elems (fst (createNoteHandler env notes w r_body)) (ID (new_note env info))
          = Some (new_note env info)
        \<and> (\<forall>k. k \<noteq> ID (new_note env info) \<longrightarrow>
              elems (fst (createNoteHandler env notes w r_body)) k = elems notes k))
   \<and> fst (getNoteHandler env' notes w' noteID) = notes"
  by (simp add: fst_createNoteHandler fst_getNoteHandler ID_new_note)

theorem handlers_all_or_nothing_witness:
  "Decode (env_ok 1000 7) [] = Inl ''EOF''
   \<and> fst (createNoteHandler (env_ok 1000 7) (serve [POST_notes (env_ok 900 9) ''B''])
            new_response []) = serve [POST_notes (env_ok 900 9) ''B'']
   \<and> Decode (env_enc_fails 1000 7) ''A'' = Inr (titled ''A'')
   \<and> Encode (env_enc_fails 1000 7) (new_note (env_enc_fails 1000 7) (titled ''A''))
        = Inl ''write: broken pipe''
   \<and> fst (createNoteHandler (env_enc_fails 1000 7) (serve [POST_notes (env_ok 900 9) ''B''])
            new_response ''A'') = serve [POST_notes (env_ok 900 9) ''B'']
   \<and> Encode (env_ok 1000 7) (new_note (env_ok 1000 7) (titled ''A'')) = Inr ''A''
   \<and> elems (fst (createNoteHandler (env_ok 1000 7) (serve [POST_notes (env_ok 900 9) ''B''])
            new_response ''A'')) 7 = Some (note_of 7 ''A'' 1000)
   \<and> elems (fst (createNoteHandler (env_ok 1000 7) (serve [POST_notes (env_ok 900 9) ''B''])
            new_response ''A'')) 9 = Some (note_of 9 ''B'' 900)
   \<and> fst (getNoteHandler (env_ok 1001 0) (serve [POST_notes (env_ok 900 9) ''B''])
            new_response ''7'') = serve [POST_notes (env_ok 900 9) ''B'']"
proof -
  let ?s = "serve [POST_notes (env_ok 900 9) ''B'']"
  have s: "elems ?s 9 = Some (note_of 9 ''B'' 900)"
    by (simp add: serve_def fst_createNoteHandler env_ok_def new_note_def Int63_small
        notes_init_def titled_def note_of_def)
  have d0: "Decode (env_ok 1000 7) [] = Inl ''EOF''"
    by (simp add: env_ok_def)
  have d: "Decode (env_enc_fails 1000 7) ''A'' = Inr (titled ''A'')"
    by (simp add: env_enc_fails_def env_ok_def titled_def)
  have e: "Encode (env_enc_fails 1000 7) (new_note (env_enc_fails 1000 7) (titled ''A''))
             = Inl ''write: broken pipe''"
    by (simp add: env_enc_fails_def env_ok_def)
  have d1: "Decode (env_ok 1000 7) ''A'' = Inr (titled ''A'')"
    by (simp add: env_ok_def titled_def)
  have e1: "Encode (env_ok 1000 7) (new_note (env_ok 1000 7) (titled ''A'')) = Inr ''A''"
    by (simp add: env_ok_def titled_def new_note_def Let_def)
  have n: "new_note (env_ok 1000 7) (titled ''A'') = note_of 7 ''A'' 1000"
    by (simp add: new_note_def Let_def note_of_def Int63_env_ok_7) (simp add: env_ok_def)
  from handlers_all_or_nothing [of "env_ok 1000 7" "[]" ?s new_response] d0
  have a: "fst (createNoteHandler (env_ok 1000 7) ?s new_response []) = ?s"
    by blast
  from handlers_all_or_nothing [of "env_enc_fails 1000 7" "''A''" ?s new_response] d e
  have b: "fst (createNoteHandler (env_enc_fails 1000 7) ?s new_response ''A'') = ?s"
    by blast
  from handlers_all_or_nothing [of "env_ok 1000 7" "''A''" ?s new_response] d1 e1
  have "elems (fst (createNoteHandler (env_ok 1000 7) ?s new_response ''A''))
          (ID (new_note (env_ok 1000 7) (titled ''A'')))
          = Some (new_note (env_ok 1000 7) (titled ''A''))
        \<and> (\<forall>k. k \<noteq> ID (new_note (env_ok 1000 7) (titled ''A'')) \<longrightarrow>
              elems (fst (createNoteHandler (env_ok 1000 7) ?s new_response ''A'')) k
                = elems ?s k)"
    by blast
  then have f: "elems (fst (createNoteHandler (env_ok 1000 7) ?s new_response ''A'')) 7
                  = Some (note_of 7 ''A'' 1000)"
    and k: "elems (fst (createNoteHandler (env_ok 1000 7) ?s new_response ''A'')) 9
              = Some (note_of 9 ''B'' 900)"
    by (simp_all add: n s note_of_def)
  from handlers_all_or_nothing [of _ _ ?s _ "env_ok 1001 0" new_response "''7''"]
  have c: "fst (getNoteHandler (env_ok 1001 0) ?s new_response ''7'') = ?s"
    by blast
  from a b c d0 d e e1 f k show ?thesis by simp
qed

text \<open>
  C10. When the request decodes and the encoding of the answer fails, the handler returns
  with the store as it found it, while the status line sent is the 201 written before the
  encoding; the body then holds the error's text. The map is written only on the path
  where the encoding succeeded.
\<close>

theorem create_stores_only_after_encoding:
  assumes "Decode env r_body = Inr info"
      and "Encode env (new_note env info) = Inl err"
  shows "fst (createNoteHandler env notes new_response r_body) = notes
       \<and> status (snd (createNoteHandler env notes new_response r_body)) = Some StatusCreated
       \<and> body (snd (createNoteHandler env notes new_response r_body)) = err @ [CHR 0x0A]"
  by (simp add: createNoteHandler_encode_error [OF assms] response_simps new_response_simps)

theorem create_stores_only_after_encoding_witness:
  "Decode (env_enc_fails 1000 7) ''A'' = Inr (titled ''A'')
   \<and> Encode (env_enc_fails 1000 7) (new_note (env_enc_fails 1000 7) (titled ''A''))
       = Inl ''write: broken pipe''
   \<and> fst (createNoteHandler (env_enc_fails 1000 7) notes_init new_response ''A'') = notes_init
   \<and> status (snd (createNoteHandler (env_enc_fails 1000 7) notes_init new_response ''A''))
       = Some StatusCreated
   \<and> body (snd (createNoteHandler (env_enc_fails 1000 7) notes_init new_response ''A''))
       = ''write: broken pipe'' @ [CHR 0x0A]"
proof -
  have d: "Decode (env_enc_fails 1000 7) ''A'' = Inr (titled ''A'')"
    by (simp add: env_enc_fails_def env_ok_def titled_def)
  have e: "Encode (env_enc_fails 1000 7) (new_note (env_enc_fails 1000 7) (titled ''A''))
             = Inl ''write: broken pipe''"
    by (simp add: env_enc_fails_def env_ok_def)
  from create_stores_only_after_encoding [OF d e, of notes_init] d e
  show ?thesis by simp
qed

section \<open>Properties of the Note Store operations\<close>

subsection \<open>Looking a Note up\<close>

lemma lookup_Nil: "lookup i [] = None"
  by (simp add: lookup_def)

lemma lookup_Cons: "lookup i (n # st) = (if ID n = i then Some n else lookup i st)"
  by (simp add: lookup_def)

lemma lookup_append:
  "lookup i (st @ st') = (case lookup i st of None \<Rightarrow> lookup i st' | Some n \<Rightarrow> Some n)"
  by (induction st) (simp_all add: lookup_Nil lookup_Cons)

lemma lookup_None_iff: "lookup i st = None \<longleftrightarrow> i \<notin> ID ` set st"
  by (induction st) (auto simp: lookup_Nil lookup_Cons)

lemma lookup_Some_ID: "lookup i st = Some n \<Longrightarrow> ID n = i \<and> n \<in> set st"
  by (induction st) (auto simp: lookup_Nil lookup_Cons split: if_splits)

lemma lookup_map_upd:
  assumes "\<And>m. ID (f m) = ID m"
  shows "lookup j (map (\<lambda>m. if ID m = i then f m else m) st) =
           (if j = i then map_option f (lookup i st) else lookup j st)"
  using assms by (induction st) (auto simp: lookup_Nil lookup_Cons)

lemma lookup_filter:
  "lookup j (filter (\<lambda>m. ID m \<noteq> i) st) = (if j = i then None else lookup j st)"
  by (induction st) (auto simp: lookup_Nil lookup_Cons)

lemma Get_eq_Inr: "Get i st = Inr n \<longleftrightarrow> lookup i (stored st) = Some n"
  by (simp add: Get_def split: option.splits)

lemma Get_eq_Inl: "Get i st = Inl e \<longleftrightarrow> e = NotFound \<and> lookup i (stored st) = None"
  by (auto simp: Get_def split: option.splits)

lemma Update_stored:
  assumes "lookup i (stored st) = Some n"
  shows "Update i p now st =
           Inr (n\<lparr>Info := apply_Patch p (Info n), UpdatedAt := now\<rparr>,
                st\<lparr>stored := map (\<lambda>m. if ID m = i
                          then m\<lparr>Info := apply_Patch p (Info m), UpdatedAt := now\<rparr>
                          else m) (stored st)\<rparr>)"
  using assms by (simp add: Update_def Let_def)

lemma Get_after_Update:
  assumes "lookup i (stored st) = Some n" and "Update i p now st = Inr (n', st')"
  shows "Get i st' = Inr n'"
proof -
  let ?f = "\<lambda>m. m\<lparr>Info := apply_Patch p (Info m), UpdatedAt := now\<rparr>"
  from assms Update_stored [OF assms(1), of p now]
  have n': "n' = ?f n"
    and st': "st' = st\<lparr>stored := map (\<lambda>m. if ID m = i then ?f m else m) (stored st)\<rparr>"
    by simp_all
  have "lookup i (stored st') = map_option ?f (lookup i (stored st))"
    unfolding st' by (simp, subst lookup_map_upd) simp_all
  then show ?thesis
    by (simp add: Get_eq_Inr assms(1) n')
qed

lemma and_mask_63_small: "uint (u :: 64 word) < 2 ^ 63 \<Longrightarrow> u AND mask 63 = u"
  by (simp add: mask_eq_iff)

lemma Create_Inr:
  assumes "Create info now draws st = Inr (n, st')"
  shows "stored st' = stored st @ [n] \<and> retired st' = retired st
         \<and> Info n = info \<and> CreatedAt n = now \<and> UpdatedAt n = now
         \<and> lookup (ID n) (stored st) = None \<and> ID n \<notin> set (retired st)"
proof -
  from assms obtain i
    where f: "find (\<lambda>i. lookup i (stored st) = None \<and> i \<notin> set (retired st))
                (map (\<lambda>u. u AND mask 63) draws) = Some i"
      and n: "n = \<lparr>ID = i, Info = info, CreatedAt = now, UpdatedAt = now\<rparr>"
      and st': "st' = st\<lparr>stored := stored st @ [n]\<rparr>"
    by (auto simp: Create_def Let_def split: option.splits)
  from f have "lookup i (stored st) = None \<and> i \<notin> set (retired st)"
    by (auto simp: find_Some_iff)
  with n st' show ?thesis by simp
qed

lemma Delete_Inr:
  "Delete i st = Inr st' \<Longrightarrow>
     stored st' = filter (\<lambda>m. ID m \<noteq> i) (stored st) \<and> retired st' = i # retired st"
  by (auto simp: Delete_def split: option.splits)

lemma Update_Inr_retired: "Update i p now st = Inr (n', st') \<Longrightarrow> retired st' = retired st"
  by (auto simp: Update_def Let_def split: option.splits)

subsection \<open>An identifier is assigned once\<close>

text \<open>
  The id of a created Note is a 63-bit number that is not negative, that no stored Note
  holds and that no deleted Note held. The retired ids only grow, so the id of a deleted
  Note is never assigned again, and a create never replaces a stored Note.
\<close>

lemma Create_id_nonneg:
  assumes "Create info now draws st = Inr (n, st')"
  shows "0 \<le> sint (ID n)"
proof -
  from assms obtain i
    where f: "find (\<lambda>i. lookup i (stored st) = None \<and> i \<notin> set (retired st))
                (map (\<lambda>u. u AND mask 63) draws) = Some i"
      and n: "ID n = i"
    by (auto simp: Create_def Let_def split: option.splits)
  from f obtain u :: "64 word" where i: "i = u AND mask 63"
    by (auto simp: find_Some_iff)
  have "\<not> bit (u AND mask 63) (63::nat)"
    by (simp add: bit_and_iff bit_mask_iff)
  then have "\<not> sint (u AND mask 63) < 0"
    using bit_last_iff [of "u AND mask 63"] by simp
  with n i show ?thesis by simp
qed

lemma Create_keeps_stored:
  assumes "Create info now draws st = Inr (n, st')" and "lookup j (stored st) = Some m"
  shows "lookup j (stored st') = Some m"
  using Create_Inr [OF assms(1)] assms(2) by (simp add: lookup_append)

lemma Create_after_Delete:
  assumes "Delete i st = Inr st'" and "Create info now draws st' = Inr (n, st'')"
  shows "ID n \<noteq> i"
  using Delete_Inr [OF assms(1)] Create_Inr [OF assms(2)] by auto

lemma retired_grows:
  "Create info now draws st = Inr (n, st') \<Longrightarrow> set (retired st) \<subseteq> set (retired st')"
  "Update i p now st = Inr (n, st') \<Longrightarrow> set (retired st) \<subseteq> set (retired st')"
  "Delete i st = Inr st'' \<Longrightarrow> set (retired st) \<subseteq> set (retired st'')"
  by (auto dest: Create_Inr Update_Inr_retired Delete_Inr)

subsection \<open>List\<close>

lemma length_List:
  "length (List limit offset st)
     = min (nat (sint limit)) (length (stored st) - nat (sint offset))"
  by (simp add: List_def min.commute)

lemma nth_List:
  assumes "k < length (List limit offset st)"
  shows "List limit offset st ! k = stored st ! (nat (sint offset) + k)"
proof -
  from assms have "k < length (stored st) - nat (sint offset)"
    by (simp add: List_def)
  then have "k < nat (sint limit)" and "nat (sint offset) \<le> length (stored st)"
    using assms by (simp_all add: List_def)
  then show ?thesis
    by (simp add: List_def)
qed

subsection \<open>The claims about Update, Delete and List\<close>

text \<open>
  C2. For a stored Note and any Patch, Update succeeds, the Store then holds the Note it
  returns, and in that Note each field whose entry is present has the entry's value and
  each field whose entry is absent has the value it had. An entry \<open>present(false)\<close> for
  \<open>isPublic\<close> gives \<open>false\<close>; an absent entry leaves a \<open>true\<close> as it is.
\<close>

theorem Update_applies_patch:
  assumes "Get i st = Inr n"
  shows "\<exists>n' st'. Update i p now st = Inr (n', st') \<and> Get i st' = Inr n'
     \<and> (\<forall>v. patch_title p = present v \<longrightarrow> Title (Info n') = v)
     \<and> (patch_title p = absent \<longrightarrow> Title (Info n') = Title (Info n))
     \<and> (\<forall>v. patch_context p = present v \<longrightarrow> Context (Info n') = v)
     \<and> (patch_context p = absent \<longrightarrow> Context (Info n') = Context (Info n))
     \<and> (\<forall>v. patch_author p = present v \<longrightarrow> Author (Info n') = v)
     \<and> (patch_author p = absent \<longrightarrow> Author (Info n') = Author (Info n))
     \<and> (\<forall>v. patch_isPublic p = present v \<longrightarrow> IsPublic (Info n') = v)
     \<and> (patch_isPublic p = absent \<longrightarrow> IsPublic (Info n') = IsPublic (Info n))
     \<and> (patch_isPublic p = present False \<longrightarrow> IsPublic (Info n') = False)
     \<and> (patch_isPublic p = absent \<and> IsPublic (Info n) = True \<longrightarrow> IsPublic (Info n') = True)"
proof -
  from assms have l: "lookup i (stored st) = Some n"
    by (simp add: Get_eq_Inr)
  let ?n' = "n\<lparr>Info := apply_Patch p (Info n), UpdatedAt := now\<rparr>"
  let ?st' = "st\<lparr>stored := map (\<lambda>m. if ID m = i
                        then m\<lparr>Info := apply_Patch p (Info m), UpdatedAt := now\<rparr>
                        else m) (stored st)\<rparr>"
  have u: "Update i p now st = Inr (?n', ?st')"
    by (rule Update_stored [OF l])
  have g: "Get i ?st' = Inr ?n'"
    by (rule Get_after_Update [OF l u])
  have f: "Info ?n' = apply_Patch p (Info n)"
    by simp
  show ?thesis
    apply (rule exI [of _ ?n'], rule exI [of _ ?st'])
    apply (simp only: u g f simp_thms)
    apply (simp add: apply_Patch_def patch_field_def)
    done
qed

lemma lookup_note_A: "lookup 7 (stored (store_of [note_A])) = Some note_A"
  by (simp add: store_of_def lookup_Cons note_A_def)

theorem Update_applies_patch_witness:
  "Get 7 (store_of [note_A]) = Inr note_A
   \<and> (\<exists>n' st'. Update 7 (no_patch\<lparr>patch_context := present ''Z''\<rparr>) 2000 (store_of [note_A])
                   = Inr (n', st')
         \<and> Get 7 st' = Inr n'
         \<and> Title (Info n') = ''A'' \<and> Context (Info n') = ''Z'' \<and> Author (Info n') = ''C''
         \<and> IsPublic (Info n') = True)
   \<and> (\<exists>n' st'. Update 7 (no_patch\<lparr>patch_isPublic := present False\<rparr>) 2000 (store_of [note_A])
                   = Inr (n', st')
         \<and> Get 7 st' = Inr n' \<and> IsPublic (Info n') = False \<and> Title (Info n') = ''A'')"
proof -
  have g: "Get 7 (store_of [note_A]) = Inr note_A"
    by (simp add: Get_eq_Inr lookup_note_A)
  have a: "\<exists>n' st'. Update 7 (no_patch\<lparr>patch_context := present ''Z''\<rparr>) 2000 (store_of [note_A])
                   = Inr (n', st')
         \<and> Get 7 st' = Inr n'
         \<and> Title (Info n') = ''A'' \<and> Context (Info n') = ''Z'' \<and> Author (Info n') = ''C''
         \<and> IsPublic (Info n') = True"
    using Update_applies_patch [OF g, of "no_patch\<lparr>patch_context := present ''Z''\<rparr>" 2000]
    by (auto simp: no_patch_def note_A_def)
  have b: "\<exists>n' st'. Update 7 (no_patch\<lparr>patch_isPublic := present False\<rparr>) 2000 (store_of [note_A])
                   = Inr (n', st')
         \<and> Get 7 st' = Inr n' \<and> IsPublic (Info n') = False \<and> Title (Info n') = ''A''"
    using Update_applies_patch [OF g, of "no_patch\<lparr>patch_isPublic := present False\<rparr>" 2000]
    by (auto simp: no_patch_def note_A_def)
  from g a b show ?thesis by blast
qed

text \<open>
  C5. For a stored Note, Update succeeds, the Note it returns is the Note the Store then
  holds, with \<open>updatedAt\<close> equal to the time of the call, the \<open>createdAt\<close> and the id it
  had, and so \<open>createdAt \<le> updatedAt\<close> when the clock has not gone back; this holds for
  the Patch that names no field too, which leaves the \<open>Info\<close> as it was. Update answers
  \<open>NotFound\<close> exactly when Get does.
\<close>

theorem Update_refreshes_updatedAt:
  "(\<forall>n. Get i st = Inr n \<longrightarrow>
      (\<exists>n' st'. Update i p now st = Inr (n', st') \<and> Get i st' = Inr n'
         \<and> UpdatedAt n' = now \<and> CreatedAt n' = CreatedAt n \<and> ID n' = i
         \<and> (CreatedAt n \<le> now \<longrightarrow> CreatedAt n' \<le> UpdatedAt n')))
   \<and> (\<forall>n. Get i st = Inr n \<longrightarrow>
      (\<exists>n' st'. Update i no_patch now st = Inr (n', st') \<and> Get i st' = Inr n'
         \<and> UpdatedAt n' = now \<and> Info n' = Info n))
   \<and> (Get i st = Inl NotFound \<longrightarrow> Update i p now st = Inl NotFound)
   \<and> (Update i p now st = Inl NotFound \<longrightarrow> Get i st = Inl NotFound)"
proof (intro conjI allI impI)
  fix n assume "Get i st = Inr n"
  then have l: "lookup i (stored st) = Some n"
    by (simp add: Get_eq_Inr)
  note u = Update_stored [OF l, of p now]
  from Get_after_Update [OF l u] u lookup_Some_ID [OF l]
  show "\<exists>n' st'. Update i p now st = Inr (n', st') \<and> Get i st' = Inr n'
         \<and> UpdatedAt n' = now \<and> CreatedAt n' = CreatedAt n \<and> ID n' = i
         \<and> (CreatedAt n \<le> now \<longrightarrow> CreatedAt n' \<le> UpdatedAt n')"
    by simp
next
  fix n assume "Get i st = Inr n"
  then have l: "lookup i (stored st) = Some n"
    by (simp add: Get_eq_Inr)
  note u = Update_stored [OF l, of no_patch now]
  have "apply_Patch no_patch (Info n) = Info n"
    by (simp add: apply_Patch_def patch_field_def no_patch_def)
  with Get_after_Update [OF l u] u
  show "\<exists>n' st'. Update i no_patch now st = Inr (n', st') \<and> Get i st' = Inr n'
         \<and> UpdatedAt n' = now \<and> Info n' = Info n"
    by simp
next
  assume "Get i st = Inl NotFound"
  then show "Update i p now st = Inl NotFound"
    by (simp add: Get_eq_Inl Update_def Let_def)
next
  assume "Update i p now st = Inl NotFound"
  then show "Get i st = Inl NotFound"
    by (simp add: Get_def Update_def Let_def split: option.splits)
qed

theorem Update_refreshes_updatedAt_witness:
  "Get 7 (store_of [note_A]) = Inr note_A
   \<and> CreatedAt note_A \<le> 2000
   \<and> (\<exists>n' st'. Update 7 (no_patch\<lparr>patch_title := present ''T''\<rparr>) 2000 (store_of [note_A])
                   = Inr (n', st')
         \<and> Get 7 st' = Inr n' \<and> UpdatedAt n' = 2000 \<and> CreatedAt n' = 1000 \<and> ID n' = 7
         \<and> CreatedAt n' \<le> UpdatedAt n')
   \<and> (\<exists>n' st'. Update 7 no_patch 2000 (store_of [note_A]) = Inr (n', st') \<and> Get 7 st' = Inr n'
         \<and> UpdatedAt n' = 2000 \<and> Info n' = Info note_A)
   \<and> Get 9 (store_of [note_A]) = Inl NotFound
   \<and> Update 9 no_patch 2000 (store_of [note_A]) = Inl NotFound"
proof -
  let ?st = "store_of [note_A]"
  have g: "Get 7 ?st = Inr note_A"
    by (simp add: Get_eq_Inr lookup_note_A)
  have t: "CreatedAt note_A \<le> 2000" and t': "CreatedAt note_A = 1000"
    by (simp_all add: note_A_def)
  have g9: "Get 9 ?st = Inl NotFound"
    by (simp add: Get_eq_Inl store_of_def lookup_Cons lookup_Nil note_A_def)
  from Update_refreshes_updatedAt [of 7 ?st "no_patch\<lparr>patch_title := present ''T''\<rparr>" 2000]
    g t t'
  have a: "\<exists>n' st'. Update 7 (no_patch\<lparr>patch_title := present ''T''\<rparr>) 2000 ?st = Inr (n', st')
         \<and> Get 7 st' = Inr n' \<and> UpdatedAt n' = 2000 \<and> CreatedAt n' = 1000 \<and> ID n' = 7
         \<and> CreatedAt n' \<le> UpdatedAt n'"
    by auto
  from Update_refreshes_updatedAt [of 7 ?st no_patch 2000] g
  have b: "\<exists>n' st'. Update 7 no_patch 2000 ?st = Inr (n', st') \<and> Get 7 st' = Inr n'
         \<and> UpdatedAt n' = 2000 \<and> Info n' = Info note_A"
    by blast
  from Update_refreshes_updatedAt [of 9 ?st no_patch 2000] g9
  have c: "Update 9 no_patch 2000 ?st = Inl NotFound"
    by blast
  from g t g9 a b c show ?thesis by blast
qed

text \<open>
  C6. \<open>getNoteHandler\<close> answers 404 exactly when \<open>strconv.ParseInt\<close> reads its text as
  an id under which the map has no Note; for a text that \<open>ParseInt\<close> refuses it answers
  400. Get of the Store answers \<open>NotFound\<close> exactly when no stored Note has the id. After
  a Delete that succeeded, Get answers \<open>NotFound\<close>, a second Delete answers \<open>NotFound\<close>,
  and \<open>getNoteHandler\<close> on the map of the Store answers 404 to every text read as the id.
\<close>

theorem NotFound_iff_absent_and_Delete_terminal:
  "(status (snd (getNoteHandler env notes new_response noteID)) = Some StatusNotFound
      \<longleftrightarrow> (\<exists>j. ParseInt env noteID = Inr j \<and> elems notes j = None))
   \<and> (Get i st = Inl NotFound \<longleftrightarrow> i \<notin> ID ` set (stored st))
   \<and> (\<forall>st'. Delete i st = Inr st' \<longrightarrow>
          Get i st' = Inl NotFound
        \<and> Delete i st' = Inl NotFound
        \<and> (\<forall>env' noteID'. ParseInt env' noteID' = Inr i \<longrightarrow>
              status (snd (getNoteHandler env' (as_SyncMap st') new_response noteID'))
                = Some StatusNotFound))"
proof (intro conjI allI impI)
  show "status (snd (getNoteHandler env notes new_response noteID)) = Some StatusNotFound
      \<longleftrightarrow> (\<exists>j. ParseInt env noteID = Inr j \<and> elems notes j = None)"
  proof (cases "ParseInt env noteID")
    case (Inl e)
    with status_getNoteHandler_unparsed [OF Inl, of "notes"] show ?thesis
      by simp
  next
    case (Inr j)
    show ?thesis
    proof (cases "elems notes j")
      case None
      with status_getNoteHandler_absent [OF Inr None] Inr show ?thesis
        by simp
    next
      case (Some n)
      with status_getNoteHandler_found [OF Inr Some] Inr show ?thesis
        by (simp split: sum.splits)
    qed
  qed
next
  show "Get i st = Inl NotFound \<longleftrightarrow> i \<notin> ID ` set (stored st)"
    by (simp add: Get_eq_Inl lookup_None_iff)
next
  fix st' assume "Delete i st = Inr st'"
  then have "lookup i (stored st') = None"
    by (simp add: Delete_Inr lookup_filter)
  then show "Get i st' = Inl NotFound" and "Delete i st' = Inl NotFound"
    by (simp_all add: Get_eq_Inl Delete_def)
next
  fix st' and env' :: Env and noteID'
  assume "Delete i st = Inr st'" and p: "ParseInt env' noteID' = Inr i"
  then have "lookup i (stored st') = None"
    by (simp add: Delete_Inr lookup_filter)
  then have "elems (as_SyncMap st') i = None"
    by (simp add: as_SyncMap_def)
  from status_getNoteHandler_absent [OF p this]
  show "status (snd (getNoteHandler env' (as_SyncMap st') new_response noteID'))
          = Some StatusNotFound" .
qed

theorem NotFound_iff_absent_and_Delete_terminal_witness:
  "ParseInt (env_ok 1001 0) ''9'' = Inr 9
   \<and> elems (as_SyncMap (store_of [note_of 7 ''A'' 1000, note_of 8 ''B'' 1001])) 9 = None
   \<and> status (snd (getNoteHandler (env_ok 1001 0)
        (as_SyncMap (store_of [note_of 7 ''A'' 1000, note_of 8 ''B'' 1001])) new_response ''9''))
        = Some StatusNotFound
   \<and> ParseInt (env_ok 1001 0) ''7'' = Inr 7
   \<and> elems (as_SyncMap (store_of [note_of 7 ''A'' 1000, note_of 8 ''B'' 1001])) 7
        = Some (note_of 7 ''A'' 1000)
   \<and> status (snd (getNoteHandler (env_ok 1001 0)
        (as_SyncMap (store_of [note_of 7 ''A'' 1000, note_of 8 ''B'' 1001])) new_response ''7''))
        \<noteq> Some StatusNotFound
   \<and> ParseInt (env_ok 1001 0) ''x'' = Inl ''invalid syntax''
   \<and> status (snd (getNoteHandler (env_ok 1001 0)
        (as_SyncMap (store_of [note_of 7 ''A'' 1000, note_of 8 ''B'' 1001])) new_response ''x''))
        \<noteq> Some StatusNotFound
   \<and> Get 7 (store_of [note_of 7 ''A'' 1000, note_of 8 ''B'' 1001]) \<noteq> Inl NotFound
   \<and> Delete 7 (store_of [note_of 7 ''A'' 1000, note_of 8 ''B'' 1001])
        = Inr \<lparr>stored = [note_of 8 ''B'' 1001], retired = [7]\<rparr>
   \<and> status (snd (getNoteHandler (env_ok 1001 0)
        (as_SyncMap \<lparr>stored = [note_of 8 ''B'' 1001], retired = [7]\<rparr>) new_response ''7''))
        = Some StatusNotFound
   \<and> Get 7 \<lparr>stored = [note_of 8 ''B'' 1001], retired = [7]\<rparr> = Inl NotFound
   \<and> Delete 7 \<lparr>stored = [note_of 8 ''B'' 1001], retired = [7]\<rparr> = Inl NotFound"
proof -
  let ?st = "store_of [note_of 7 ''A'' 1000, note_of 8 ''B'' 1001]"
  let ?st' = "\<lparr>stored = [note_of 8 ''B'' 1001], retired = [7]\<rparr>"
  have p9: "ParseInt (env_ok 1001 0) ''9'' = Inr 9"
    and p7: "ParseInt (env_ok 1001 0) ''7'' = Inr 7"
    and px: "ParseInt (env_ok 1001 0) ''x'' = Inl ''invalid syntax''"
    by (simp_all add: env_ok_def)
  have e9: "elems (as_SyncMap ?st) 9 = None"
    by (simp add: as_SyncMap_def store_of_def lookup_Cons lookup_Nil note_of_def)
  have f7: "elems (as_SyncMap ?st) 7 = Some (note_of 7 ''A'' 1000)"
    by (simp add: as_SyncMap_def store_of_def lookup_Cons note_of_def)
  have m: "7 \<in> ID ` set (stored ?st)"
    by (simp add: store_of_def note_of_def)
  have d: "Delete 7 ?st = Inr ?st'"
    by (simp add: Delete_def store_of_def lookup_Cons note_of_def)
  from NotFound_iff_absent_and_Delete_terminal [of "env_ok 1001 0" "as_SyncMap ?st" "''9''" 7 ?st]
    p9 e9
  have a: "status (snd (getNoteHandler (env_ok 1001 0) (as_SyncMap ?st) new_response ''9''))
        = Some StatusNotFound"
    by blast
  from NotFound_iff_absent_and_Delete_terminal [of "env_ok 1001 0" "as_SyncMap ?st" "''7''" 7 ?st]
    p7 f7 m
  have c: "status (snd (getNoteHandler (env_ok 1001 0) (as_SyncMap ?st) new_response ''7''))
        \<noteq> Some StatusNotFound"
    and c': "Get 7 ?st \<noteq> Inl NotFound"
    by simp_all
  from NotFound_iff_absent_and_Delete_terminal [of "env_ok 1001 0" "as_SyncMap ?st" "''x''" 7 ?st]
    px
  have x: "status (snd (getNoteHandler (env_ok 1001 0) (as_SyncMap ?st) new_response ''x''))
        \<noteq> Some StatusNotFound"
    by simp
  from NotFound_iff_absent_and_Delete_terminal [of "env_ok 1001 0" "as_SyncMap ?st" "''7''" 7 ?st]
    d p7
  have b: "status (snd (getNoteHandler (env_ok 1001 0) (as_SyncMap ?st') new_response ''7''))
        = Some StatusNotFound
      \<and> Get 7 ?st' = Inl NotFound
      \<and> Delete 7 ?st' = Inl NotFound"
    by blast
  from p9 e9 a p7 f7 c px x c' d b show ?thesis by blast
qed

text \<open>
  C7. List returns a stretch of the sequence of stored Notes, in their order: as many
  Notes as \<open>limit\<close> allows and the Store has after the first \<open>offset\<close>, the k-th of
  them being the Note at place \<open>offset + k\<close>. After three creates A, B, C on the empty
  Store, \<open>List(limit=1, offset=1)\<close> is the Note B alone. An \<open>offset\<close> that is the
  count of the Store or more gives the empty sequence.
\<close>

theorem List_offset_limit:
  "length (List limit offset st)
     = min (nat (sint limit)) (length (stored st) - nat (sint offset))
   \<and> (\<forall>k. k < length (List limit offset st) \<longrightarrow>
          List limit offset st ! k = stored st ! (nat (sint offset) + k))
   \<and> (\<forall>na s1 nb s2 nc s3.
          Create a t1 d1 empty_Store = Inr (na, s1) \<and> Create b t2 d2 s1 = Inr (nb, s2)
          \<and> Create c t3 d3 s2 = Inr (nc, s3) \<longrightarrow>
          stored s3 = [na, nb, nc] \<and> Info na = a \<and> Info nb = b \<and> Info nc = c
          \<and> List 1 1 s3 = [nb])
   \<and> (int (length (stored st)) \<le> sint offset \<longrightarrow> List limit offset st = [])"
proof (intro conjI allI impI)
  show "length (List limit offset st)
          = min (nat (sint limit)) (length (stored st) - nat (sint offset))"
    by (rule length_List)
next
  fix k assume "k < length (List limit offset st)"
  then show "List limit offset st ! k = stored st ! (nat (sint offset) + k)"
    by (rule nth_List)
next
  fix na s1 nb s2 nc s3
  assume c: "Create a t1 d1 empty_Store = Inr (na, s1) \<and> Create b t2 d2 s1 = Inr (nb, s2)
          \<and> Create c t3 d3 s2 = Inr (nc, s3)"
  then have s: "stored s3 = [na, nb, nc]" and i: "Info na = a" "Info nb = b" "Info nc = c"
    by (auto dest!: Create_Inr simp: empty_Store_def)
  from s have "List 1 1 s3 = [nb]"
    by (simp add: List_def)
  with s i show "stored s3 = [na, nb, nc]" "Info na = a" "Info nb = b" "Info nc = c"
    "List 1 1 s3 = [nb]"
    by simp_all
next
  assume "int (length (stored st)) \<le> sint offset"
  then show "List limit offset st = []"
    by (simp add: List_def)
qed

lemma Create_examples:
  "Create (titled ''A'') 1000 [7] empty_Store
     = Inr (note_of 7 ''A'' 1000, store_of [note_of 7 ''A'' 1000])"
  "Create (titled ''B'') 1001 [7, 8] (store_of [note_of 7 ''A'' 1000])
     = Inr (note_of 8 ''B'' 1001, store_of [note_of 7 ''A'' 1000, note_of 8 ''B'' 1001])"
  "Create (titled ''C'') 1002 [9] (store_of [note_of 7 ''A'' 1000, note_of 8 ''B'' 1001])
     = Inr (note_of 9 ''C'' 1002,
            store_of [note_of 7 ''A'' 1000, note_of 8 ''B'' 1001, note_of 9 ''C'' 1002])"
  by (simp_all add: Create_def empty_Store_def store_of_def lookup_Cons lookup_Nil
      and_mask_63_small note_of_def Let_def)

theorem List_offset_limit_witness:
  "Create (titled ''A'') 1000 [7] empty_Store
     = Inr (note_of 7 ''A'' 1000, store_of [note_of 7 ''A'' 1000])
   \<and> Create (titled ''B'') 1001 [7, 8] (store_of [note_of 7 ''A'' 1000])
       = Inr (note_of 8 ''B'' 1001, store_of [note_of 7 ''A'' 1000, note_of 8 ''B'' 1001])
   \<and> Create (titled ''C'') 1002 [9] (store_of [note_of 7 ''A'' 1000, note_of 8 ''B'' 1001])
       = Inr (note_of 9 ''C'' 1002,
              store_of [note_of 7 ''A'' 1000, note_of 8 ''B'' 1001, note_of 9 ''C'' 1002])
   \<and> List 1 1 (store_of [note_of 7 ''A'' 1000, note_of 8 ''B'' 1001, note_of 9 ''C'' 1002])
       = [note_of 8 ''B'' 1001]
   \<and> int (length (stored
         (store_of [note_of 7 ''A'' 1000, note_of 8 ''B'' 1001, note_of 9 ''C'' 1002])))
       \<le> sint (5 :: int64)
   \<and> List 10 5 (store_of [note_of 7 ''A'' 1000, note_of 8 ''B'' 1001, note_of 9 ''C'' 1002])
       = []
   \<and> (0::nat) < length (List 2 1
         (store_of [note_of 7 ''A'' 1000, note_of 8 ''B'' 1001, note_of 9 ''C'' 1002]))
   \<and> List 2 1 (store_of [note_of 7 ''A'' 1000, note_of 8 ''B'' 1001, note_of 9 ''C'' 1002]) ! 0
       = note_of 8 ''B'' 1001"
proof -
  let ?A = "note_of 7 ''A'' 1000" and ?B = "note_of 8 ''B'' 1001" and ?C = "note_of 9 ''C'' 1002"
  let ?st = "store_of [?A, ?B, ?C]"
  note c = Create_examples
  have o: "int (length (stored ?st)) \<le> sint (5 :: int64)"
    by (simp add: store_of_def)
  have l: "(0::nat) < length (List 2 1 ?st)"
    by (simp add: List_def store_of_def)
  from List_offset_limit [of 1 1 ?st "titled ''A''" 1000 "[7]" "titled ''B''" 1001
      "[7, 8]" "titled ''C''" 1002 "[9]"] c
  have a: "List 1 1 ?st = [?B]"
    by blast
  from List_offset_limit [of 10 5 ?st] o
  have b: "List 10 5 ?st = []"
    by blast
  from List_offset_limit [of 2 1 ?st] l
  have d: "List 2 1 ?st ! 0 = stored ?st ! (nat (sint (1 :: int64)) + 0)"
    by blast
  then have d': "List 2 1 ?st ! 0 = ?B"
    by (simp add: store_of_def)
  from c o l a b d' show ?thesis
    by blast
qed

end
